theory Spec2Isabelle
  imports Complex_Main
begin

section \<open>Object detection on video: label sizing, colour palette and the frame loop\<close>

text \<open>
  A shallow embedding of the notebook \<^verbatim>\<open>object-detection-video.ipynb\<close>: the helper
  functions \<^verbatim>\<open>calculate_label_size\<close>, \<^verbatim>\<open>generate_color_palette\<close> and
  \<^verbatim>\<open>get_label_color\<close>, and the orchestration function \<^verbatim>\<open>process_video\<close>.

  Floating-point numbers are idealised: a finite float is the real number it denotes and
  the rounding of arithmetic results is not modelled. The conversion of the threshold
  to \<^verbatim>\<open>float32\<close>, which decides what is drawn, is modelled. The non-finite values
  that NumPy produces instead of raising (\<^verbatim>\<open>inf\<close>, \<^verbatim>\<open>-inf\<close>,
  \<^verbatim>\<open>nan\<close>) are kept as values of their own.
\<close>

subsection \<open>NumPy scalars\<close>

datatype npfloat = Fin real | PInf | NInf | NaN

fun np_neg :: "npfloat \<Rightarrow> npfloat" where
  "np_neg (Fin a) = Fin (- a)"
| "np_neg PInf = NInf"
| "np_neg NInf = PInf"
| "np_neg NaN = NaN"

fun np_add :: "npfloat \<Rightarrow> npfloat \<Rightarrow> npfloat" where
  "np_add (Fin a) (Fin b) = Fin (a + b)"
| "np_add NaN y = NaN"
| "np_add x NaN = NaN"
| "np_add PInf NInf = NaN"
| "np_add NInf PInf = NaN"
| "np_add PInf y = PInf"
| "np_add NInf y = NInf"
| "np_add (Fin a) y = y"

fun np_mul :: "npfloat \<Rightarrow> npfloat \<Rightarrow> npfloat" where
  "np_mul (Fin a) (Fin b) = Fin (a * b)"
| "np_mul NaN y = NaN"
| "np_mul x NaN = NaN"
| "np_mul (Fin a) y = (if a = 0 then NaN else if 0 < a then y else np_neg y)"
| "np_mul x (Fin b) = (if b = 0 then NaN else if 0 < b then x else np_neg x)"
| "np_mul PInf y = y"
| "np_mul NInf y = np_neg y"

text \<open>
  Division of NumPy scalars never raises: a zero divisor gives an infinity or
  \<^verbatim>\<open>nan\<close> (with a warning). The zero divisors of this program are Python integers,
  hence positive zeros.
\<close>

fun np_div :: "npfloat \<Rightarrow> npfloat \<Rightarrow> npfloat" where
  "np_div (Fin a) (Fin b) =
     (if b \<noteq> 0 then Fin (a / b)
      else if a = 0 then NaN else if 0 < a then PInf else NInf)"
| "np_div NaN y = NaN"
| "np_div x NaN = NaN"
| "np_div (Fin a) y = Fin 0"
| "np_div x (Fin b) = (if 0 \<le> b then x else np_neg x)"
| "np_div PInf y = NaN"
| "np_div NInf y = NaN"

fun np_log :: "npfloat \<Rightarrow> npfloat" where
  "np_log (Fin a) = (if 0 < a then Fin (ln a) else if a = 0 then NInf else NaN)"
| "np_log PInf = PInf"
| "np_log NInf = NaN"
| "np_log NaN = NaN"

text \<open>
  \<^verbatim>\<open>np.clip(a, lo, hi)\<close> is \<^verbatim>\<open>minimum(maximum(a, lo), hi)\<close> and hands a
  \<^verbatim>\<open>nan\<close> through.
\<close>

fun np_clip :: "npfloat \<Rightarrow> real \<Rightarrow> real \<Rightarrow> npfloat" where
  "np_clip (Fin a) lo hi = Fin (min (max a lo) hi)"
| "np_clip PInf lo hi = Fin hi"
| "np_clip NInf lo hi = Fin (min lo hi)"
| "np_clip NaN lo hi = NaN"

text \<open>
  A comparison of a \<^verbatim>\<open>float32\<close> array with a Python float is made in
  \<^verbatim>\<open>float32\<close>: NumPy first converts the Python float to the nearest
  \<^verbatim>\<open>float32\<close>, ties going to the even significand. A \<^verbatim>\<open>float32\<close> with
  exponent \<open>e\<close> has a 24-bit significand, so its neighbours are \<open>2 powr (e - 23)\<close>
  apart; below \<open>2 powr (-126)\<close> the spacing stays that of the exponent \<open>-126\<close>. A
  magnitude beyond the largest \<^verbatim>\<open>float32\<close> is converted to an infinity; here it stays
  a real no smaller than \<open>2 powr 128\<close>, which compares with every \<^verbatim>\<open>float32\<close> as the
  infinity does.
\<close>

definition round_half_even :: "real \<Rightarrow> int" where
  "round_half_even y =
     (let f = \<lfloor>y\<rfloor>; r = y - of_int f
      in if r < 1 / 2 then f
         else if 1 / 2 < r then f + 1
         else if even f then f else f + 1)"

definition float32_round :: "real \<Rightarrow> real" where
  "float32_round x =
     (if x = 0 then 0
      else
        (let e = max \<lfloor>log 2 \<bar>x\<bar>\<rfloor> (- 126);
             ulp = 2 powr (of_int e - 23)
         in of_int (round_half_even (x / ulp)) * ulp))"

subsection \<open>Label sizing\<close>

text \<open>
  \<^verbatim>\<open>
  def calculate_label_size(box_width, box_height, frame_width, frame_height,
                           min_scale=0.4, max_scale=1.2):
      box_size_ratio = (box_width * box_height) / (frame_width * frame_height)
      font_scale = min_scale + (np.log(1 + box_size_ratio * 100) / 5) * (max_scale - min_scale)
      return np.clip(font_scale, min_scale, max_scale)
  \<close>
  The box sides are NumPy floats (differences of box corners), the frame sides are
  Python integers.
\<close>

definition box_size_ratio :: "real \<Rightarrow> real \<Rightarrow> int \<Rightarrow> int \<Rightarrow> npfloat" where
  "box_size_ratio box_width box_height frame_width frame_height =
     np_div (Fin (box_width * box_height)) (Fin (of_int (frame_width * frame_height)))"

definition font_scale_unclipped ::
  "real \<Rightarrow> real \<Rightarrow> int \<Rightarrow> int \<Rightarrow> real \<Rightarrow> real \<Rightarrow> npfloat" where
  "font_scale_unclipped box_width box_height frame_width frame_height min_scale max_scale =
     np_add (Fin min_scale)
       (np_mul
          (np_div
             (np_log (np_add (Fin 1)
                (np_mul (box_size_ratio box_width box_height frame_width frame_height) (Fin 100))))
             (Fin 5))
          (Fin (max_scale - min_scale)))"

definition calculate_label_size ::
  "real \<Rightarrow> real \<Rightarrow> int \<Rightarrow> int \<Rightarrow> real \<Rightarrow> real \<Rightarrow> npfloat" where
  "calculate_label_size box_width box_height frame_width frame_height min_scale max_scale =
     np_clip
       (font_scale_unclipped box_width box_height frame_width frame_height min_scale max_scale)
       min_scale max_scale"


subsection \<open>Colour palette\<close>

text \<open>
  NumPy's global random generator is not part of the repository. It is a parameter of the
  model: \<open>rs_seed k\<close> is the generator state that \<^verbatim>\<open>np.random.seed(k)\<close> installs,
  and \<open>rs_randint low high size g\<close> is the list that
  \<^verbatim>\<open>np.random.randint(low, high, size).tolist()\<close> returns in state \<open>g\<close>, with the
  state after the draw.
\<close>

record 'g np_random =
  rs_seed :: "nat \<Rightarrow> 'g"
  rs_randint :: "int \<Rightarrow> int \<Rightarrow> nat \<Rightarrow> 'g \<Rightarrow> int list \<times> 'g"

text \<open>
  The documented contract of \<^verbatim>\<open>randint\<close>: \<open>size\<close> integers from the half-open
  interval \<open>[low, high)\<close>.
\<close>

definition randint_contract :: "'g np_random \<Rightarrow> bool" where
  "randint_contract R \<longleftrightarrow>
     (\<forall>low high size g. low < high \<longrightarrow>
        length (fst (rs_randint R low high size g)) = size \<and>
        (\<forall>x \<in> set (fst (rs_randint R low high size g)). low \<le> x \<and> x < high))"

text \<open>A Python tuple of integers; a colour is one of length three.\<close>

type_synonym colour = "int list"

definition py_range :: "int \<Rightarrow> int list" where
  "py_range n = map int [0..<nat n]"

text \<open>
  \<^verbatim>\<open>
  def generate_color_palette(num_classes):
      np.random.seed(42)  # Ensure the same colors are generated every time
      return {label: tuple(np.random.randint(0, 255, 3).tolist()) for label in range(num_classes)}
  \<close>
  The dictionary comprehension draws one triple per label, in the order of the labels,
  threading the generator state. The function takes the state of the global generator at
  the call and returns the state it leaves behind.
\<close>

fun palette_entries ::
  "'g np_random \<Rightarrow> int list \<Rightarrow> 'g \<Rightarrow> (int \<rightharpoonup> colour) \<Rightarrow> (int \<rightharpoonup> colour) \<times> 'g" where
  "palette_entries R [] g m = (m, g)"
| "palette_entries R (label # labels) g m =
     (case rs_randint R 0 255 3 g of
        (xs, g') \<Rightarrow> palette_entries R labels g' (m(label \<mapsto> xs)))"

definition generate_color_palette ::
  "'g np_random \<Rightarrow> int \<Rightarrow> 'g \<Rightarrow> (int \<rightharpoonup> colour) \<times> 'g" where
  "generate_color_palette R num_classes g0 =
     palette_entries R (py_range num_classes) (rs_seed R 42) Map.empty"

text \<open>
  \<^verbatim>\<open>
  colors = generate_color_palette(num_classes=91)

  def get_label_color(label):
      return colors.get(label, (0, 255, 0))  # Default to green if no label found
  \<close>
\<close>

definition colors :: "'g np_random \<Rightarrow> 'g \<Rightarrow> (int \<rightharpoonup> colour)" where
  "colors R g0 = fst (generate_color_palette R 91 g0)"

definition get_label_color :: "(int \<rightharpoonup> colour) \<Rightarrow> int \<Rightarrow> colour" where
  "get_label_color cs label = (case cs label of Some c \<Rightarrow> c | None \<Rightarrow> [0, 255, 0])"

text \<open>
  A small generator that obeys the contract, for evaluating the definitions on concrete
  inputs: its state is a counter, and a draw maps successive counter values into
  \<open>[low, high)\<close>.
\<close>

definition counter_random :: "nat np_random" where
  "counter_random =
     \<lparr> rs_seed = (\<lambda>k. k),
       rs_randint = (\<lambda>low high size g.
          (map (\<lambda>i. low + int ((g + i) * 97 mod nat (high - low))) [0..<size], g + size)) \<rparr>"

subsection \<open>Detections and overlays\<close>

text \<open>
  The exceptions of the model: the \<^verbatim>\<open>ValueError\<close> that \<^verbatim>\<open>process_video\<close> raises
  itself, the ones Python raises for the arithmetic and the lookup of the loop body, and
  \<open>External\<close> for an exception raised inside a collaborator (OpenCV, the detector).
\<close>

datatype exn =
    ValueError string
  | ZeroDivisionError
  | OverflowError
  | KeyError int
  | External string

text \<open>
  One entry of the post-processed detector output: the arrays \<^verbatim>\<open>results["boxes"]\<close>,
  \<^verbatim>\<open>results["labels"]\<close> and \<^verbatim>\<open>results["scores"]\<close> have one row per detection and
  are indexed by the same mask and zipped, so they are kept as one list of records. A box
  is \<open>(xmin, ymin, xmax, ymax)\<close>.
\<close>

type_synonym box = "real \<times> real \<times> real \<times> real"

record detection =
  det_box :: box
  det_label :: int
  det_score :: real

text \<open>
  What the three drawing calls put on the frame for one detection: the box outline in the
  class colour with its thickness, and the label text (class name and score) with its
  font scale and thickness.
\<close>

record overlay =
  ov_detection :: detection
  ov_name :: string
  ov_color :: colour
  ov_font_scale :: npfloat
  ov_thickness :: int
  ov_text_thickness :: int

text \<open>
  Python's \<^verbatim>\<open>int(x)\<close> on a float truncates toward zero, and raises on
  \<^verbatim>\<open>nan\<close> and on an infinity.
\<close>

fun py_int :: "npfloat \<Rightarrow> exn + int" where
  "py_int (Fin a) = Inr (if 0 \<le> a then \<lfloor>a\<rfloor> else \<lceil>a\<rceil>)"
| "py_int NaN = Inl (ValueError ''cannot convert float NaN to integer'')"
| "py_int PInf = Inl OverflowError"
| "py_int NInf = Inl OverflowError"

text \<open>
  The body of the drawing loop of \<^verbatim>\<open>process_video\<close>:
  \<^verbatim>\<open>
  xmin, ymin, xmax, ymax = box
  box_width = xmax - xmin
  box_height = ymax - ymin
  font_scale = calculate_label_size(box_width, box_height, frame_width, frame_height)
  label_text = f"{model.config.id2label[label]}: {score:.2f}"
  (text_width, text_height), baseline = cv2.getTextSize(label_text, cv2.FONT_HERSHEY_SIMPLEX, font_scale, 1)
  color = get_label_color(label)
  cv2.rectangle(frame, (int(xmin), int(ymin)), (int(xmax), int(ymax)), color, max(2, int(font_scale * 3)))
  cv2.rectangle(frame, (int(xmin), int(ymin) - text_height - baseline - 5),
                (int(xmin) + text_width, int(ymin)), color, -1)
  cv2.putText(frame, label_text, (int(xmin), int(ymin) - baseline - 2),
              cv2.FONT_HERSHEY_SIMPLEX, font_scale, (0, 0, 0), max(1, int(font_scale * 1.5)), cv2.LINE_AA)
  \<close>
  The dictionary access raises \<^verbatim>\<open>KeyError\<close> for an unknown label, and
  \<^verbatim>\<open>int(font_scale * 3)\<close> raises when the font scale is not finite; both happen before
  the first drawing call, so a detection is drawn completely or not at all. The OpenCV
  calls themselves are taken not to raise.
\<close>

definition draw_detection ::
  "(int \<rightharpoonup> string) \<Rightarrow> (int \<rightharpoonup> colour) \<Rightarrow> int \<Rightarrow> int \<Rightarrow> detection \<Rightarrow> exn + overlay" where
  "draw_detection id2label cs frame_width frame_height d =
     (case det_box d of (xmin, ymin, xmax, ymax) \<Rightarrow>
        (let box_width = xmax - xmin;
             box_height = ymax - ymin;
             font_scale = calculate_label_size box_width box_height frame_width frame_height 0.4 1.2
         in (case id2label (det_label d) of
               None \<Rightarrow> Inl (KeyError (det_label d))
             | Some name \<Rightarrow>
                 (case py_int (np_mul font_scale (Fin 3)) of
                    Inl e \<Rightarrow> Inl e
                  | Inr t \<Rightarrow>
                      (case py_int (np_mul font_scale (Fin 1.5)) of
                         Inl e \<Rightarrow> Inl e
                       | Inr tt \<Rightarrow>
                           Inr \<lparr> ov_detection = d, ov_name = name,
                                 ov_color = get_label_color cs (det_label d),
                                 ov_font_scale = font_scale,
                                 ov_thickness = max 2 t, ov_text_thickness = max 1 tt \<rparr>)))))"

text \<open>The \<^verbatim>\<open>for\<close> loop over the kept detections; it stops at the first exception.\<close>

fun draw_detections ::
  "(int \<rightharpoonup> string) \<Rightarrow> (int \<rightharpoonup> colour) \<Rightarrow> int \<Rightarrow> int \<Rightarrow> detection list \<Rightarrow> exn + overlay list" where
  "draw_detections id2label cs frame_width frame_height [] = Inr []"
| "draw_detections id2label cs frame_width frame_height (d # ds) =
     (case draw_detection id2label cs frame_width frame_height d of
        Inl e \<Rightarrow> Inl e
      | Inr ov \<Rightarrow>
          (case draw_detections id2label cs frame_width frame_height ds of
             Inl e \<Rightarrow> Inl e
           | Inr ovs \<Rightarrow> Inr (ov # ovs)))"

subsection \<open>The collaborators of the frame loop\<close>

text \<open>
  A frame as handed to the video writer: the decoded frame, the overlays drawn on it in
  order, and the value shown by the FPS counter.
\<close>

record 'f rendered =
  rf_frame :: 'f
  rf_overlays :: "overlay list"
  rf_fps :: real

text \<open>
  The video source, the detector and the clock are outside the repository; a run is
  determined by what they answer. One \<open>frame_script\<close> holds the answers for one
  iteration of the loop: what \<^verbatim>\<open>cap.read()\<close> returns (a frame, \<^verbatim>\<open>ret = False\<close>, or an
  exception), the two readings of \<^verbatim>\<open>time.time()\<close>, and what the detector pipeline
  (\<^verbatim>\<open>cvtColor\<close>, \<^verbatim>\<open>processor\<close>, \<^verbatim>\<open>model\<close>,
  \<^verbatim>\<open>post_process_object_detection\<close>) returns or raises.
\<close>

datatype 'f read_outcome = Read_frame 'f | Read_end | Read_raises exn

record 'f frame_script =
  fs_read :: "'f read_outcome"
  fs_start_time :: real
  fs_detect :: "exn + detection list"
  fs_end_time :: real

text \<open>
  The environment of one call: whether the MPS accelerator is there, whether the capture
  and the writer opened, the properties reported by the capture, the class names of the
  model, the module-level palette \<^verbatim>\<open>colors\<close>, and the scripts of the successive
  iterations. When the scripts are used up \<^verbatim>\<open>cap.read()\<close> returns \<^verbatim>\<open>ret = False\<close>.
\<close>

record 'f video_env =
  mps_available :: bool
  cap_is_opened :: bool
  cap_frame_width :: int
  cap_frame_height :: int
  cap_fps :: int
  cap_frame_count :: int
  writer_is_opened :: bool
  id2label :: "int \<rightharpoonup> string"
  palette :: "int \<rightharpoonup> colour"
  frames :: "'f frame_script list"

datatype device = Mps | Cpu

fun device_name :: "device \<Rightarrow> string" where
  "device_name Mps = ''mps''"
| "device_name Cpu = ''cpu''"

text \<open>The calls on the collaborators and the printed lines, in the order they happen.\<close>

datatype 'f event =
    Print string
  | Print_error exn
  | Model_to device
  | Video_capture string
  | Video_writer string int int int
  | Pbar_create int
  | Cap_read
  | Out_write "'f rendered"
  | Pbar_update
  | Pbar_close
  | Cap_release
  | Out_release
  | Destroy_all_windows
  | Empty_cache
  | Gc_collect

subsection \<open>The frame loop\<close>

record 'f loop_state =
  frame_count :: nat
  total_fps :: real
  pbar_n :: nat
  events :: "'f event list"

text \<open>
  One iteration after a successful read:
  \<^verbatim>\<open>
  start_time = time.time()
  ... results = processor.post_process_object_detection(outputs, target_sizes=target_sizes)[0]
  scores = results["scores"].cpu().numpy()
  keep = scores > threshold
  boxes = results["boxes"].cpu().numpy()[keep]
  labels = results["labels"].cpu().numpy()[keep]
  scores = scores[keep]
  for box, label, score in zip(boxes, labels, scores): ...
  end_time = time.time()
  fps = 1 / (end_time - start_time)
  total_fps += fps
  frame_count += 1
  add_fps_counter(frame, fps, frame_width)
  out.write(frame)
  pbar.update(1)
  if pbar.n % 100 == 0:
      torch.cuda.empty_cache()
      gc.collect()
  \<close>
  The scores are a \<^verbatim>\<open>float32\<close> array and the threshold is a Python float, so
  \<^verbatim>\<open>scores > threshold\<close> compares each score with the threshold rounded to
  \<^verbatim>\<open>float32\<close>. The two times are Python floats, so the division raises
  \<^verbatim>\<open>ZeroDivisionError\<close> when they are equal. Nothing of the state changes before the
  last point that can raise.
\<close>

definition process_frame ::
  "'f video_env \<Rightarrow> real \<Rightarrow> 'f loop_state \<Rightarrow> 'f \<Rightarrow> 'f frame_script \<Rightarrow> exn + 'f loop_state" where
  "process_frame env threshold st frame fs =
     (case fs_detect fs of
        Inl e \<Rightarrow> Inl e
      | Inr results \<Rightarrow>
          (let keep = filter (\<lambda>d. float32_round threshold < det_score d) results
           in (case draw_detections (id2label env) (palette env)
                      (cap_frame_width env) (cap_frame_height env) keep of
                 Inl e \<Rightarrow> Inl e
               | Inr ovs \<Rightarrow>
                   (if fs_end_time fs - fs_start_time fs = 0 then Inl ZeroDivisionError
                    else
                      (let fps = 1 / (fs_end_time fs - fs_start_time fs);
                           n = pbar_n st + 1
                       in Inr (st\<lparr> total_fps := total_fps st + fps,
                                    frame_count := frame_count st + 1,
                                    pbar_n := n,
                                    events := events st
                                      @ [Out_write
                                           \<lparr> rf_frame = frame, rf_overlays = ovs, rf_fps = fps \<rparr>,
                                         Pbar_update]
                                      @ (if n mod 100 = 0 then [Empty_cache, Gc_collect]
                                         else []) \<rparr>))))))"

text \<open>
  \<^verbatim>\<open>
  while cap.isOpened():
      ret, frame = cap.read()
      if not ret:
          break
      ...
  \<close>
  The capture stays open until it is released after the loop. The result is the exception
  that left the loop, if any, and the state at that point.
\<close>

fun run_loop ::
  "'f video_env \<Rightarrow> real \<Rightarrow> 'f loop_state \<Rightarrow> 'f frame_script list \<Rightarrow> exn option \<times> 'f loop_state" where
  "run_loop env threshold st [] = (None, st\<lparr> events := events st @ [Cap_read] \<rparr>)"
| "run_loop env threshold st (fs # rest) =
     (let st1 = st\<lparr> events := events st @ [Cap_read] \<rparr>
      in (case fs_read fs of
            Read_raises e \<Rightarrow> (Some e, st1)
          | Read_end \<Rightarrow> (None, st1)
          | Read_frame frame \<Rightarrow>
              (case process_frame env threshold st1 frame fs of
                 Inl e \<Rightarrow> (Some e, st1)
               | Inr st2 \<Rightarrow> run_loop env threshold st2 rest)))"

subsection \<open>process_video\<close>

text \<open>
  \<^verbatim>\<open>
  def process_video(video_path, output_path, threshold = 0.9):
      device = torch.device("mps" if torch.backends.mps.is_available() else "cpu")
      print(f"Using device: {device}")
      model.to(device)
      cap = cv2.VideoCapture(video_path)
      if not cap.isOpened():
          raise ValueError("Error opening video file")
      frame_width = int(cap.get(cv2.CAP_PROP_FRAME_WIDTH))
      frame_height = int(cap.get(cv2.CAP_PROP_FRAME_HEIGHT))
      fps = int(cap.get(cv2.CAP_PROP_FPS))
      total_frames = int(cap.get(cv2.CAP_PROP_FRAME_COUNT))
      fourcc = cv2.VideoWriter_fourcc(*'mp4v')
      out = cv2.VideoWriter(output_path, fourcc, fps, (frame_width, frame_height))
      pbar = tqdm(total=total_frames, ...)
      frame_count = 0 # To count total frames.
      total_fps = 0 # To get the final frames per second.
      try:
          while cap.isOpened(): ...
      except Exception as e:
          print(f"An error occurred: {e}")
          raise
      finally:
          pbar.close()
          cap.release()
          out.release()
          cv2.destroyAllWindows()
          torch.cuda.empty_cache()
          gc.collect()
          model.to('cpu')
      print("\nVideo processing completed!")
  \<close>
\<close>

definition open_events :: "'f video_env \<Rightarrow> string \<Rightarrow> 'f event list" where
  "open_events env video_path =
     (let device = (if mps_available env then Mps else Cpu)
      in [Print (''Using device: '' @ device_name device), Model_to device,
          Video_capture video_path])"

definition initial_state :: "'f video_env \<Rightarrow> string \<Rightarrow> string \<Rightarrow> 'f loop_state" where
  "initial_state env video_path output_path =
     \<lparr> frame_count = 0, total_fps = 0, pbar_n = 0,
       events = open_events env video_path
         @ [Video_writer output_path (cap_fps env) (cap_frame_width env) (cap_frame_height env),
            Pbar_create (cap_frame_count env)] \<rparr>"

definition finalize_events :: "'f event list" where
  "finalize_events =
     [Pbar_close, Cap_release, Out_release, Destroy_all_windows, Empty_cache, Gc_collect,
      Model_to Cpu]"

definition completed_message :: string where
  "completed_message = CHR 0x0A # ''Video processing completed!''"

record 'f run =
  pv_result :: "exn + unit"
  pv_events :: "'f event list"

definition process_video :: "'f video_env \<Rightarrow> string \<Rightarrow> string \<Rightarrow> real \<Rightarrow> 'f run" where
  "process_video env video_path output_path threshold =
     (if \<not> cap_is_opened env
      then \<lparr> pv_result = Inl (ValueError ''Error opening video file''),
             pv_events = open_events env video_path \<rparr>
      else
        (case run_loop env threshold (initial_state env video_path output_path) (frames env) of
           (Some e, st) \<Rightarrow>
             \<lparr> pv_result = Inl e,
               pv_events = events st @ [Print_error e] @ finalize_events \<rparr>
         | (None, st) \<Rightarrow>
             \<lparr> pv_result = Inr (),
               pv_events = events st @ finalize_events @ [Print completed_message] \<rparr>))"

text \<open>
  The frames that reach the output file: a writer that failed to open drops what it is
  given.
\<close>

definition written_frames :: "'f event list \<Rightarrow> 'f rendered list" where
  "written_frames evs = concat (map (\<lambda>ev. case ev of Out_write rf \<Rightarrow> [rf] | _ \<Rightarrow> []) evs)"


text \<open>What the run prints, in order.\<close>

definition printed :: "'f event list \<Rightarrow> 'f event list" where
  "printed evs = filter (\<lambda>ev. case ev of Print s \<Rightarrow> True | Print_error e \<Rightarrow> True | _ \<Rightarrow> False) evs"

subsection \<open>Concrete runs\<close>

text \<open>
  Small environments for evaluating \<open>process_video\<close>: frames are numbered, every good
  frame takes half a second and carries two detections with degenerate boxes, one above
  the threshold 0.9 and one whose score is the \<^verbatim>\<open>float32\<close> nearest to 0.9. All scores
  are \<^verbatim>\<open>float32\<close> values.
\<close>

definition det_above :: detection where
  "det_above = \<lparr> det_box = (10, 20, 10, 60), det_label = 1, det_score = 15 / 16 \<rparr>"

definition det_at_threshold :: detection where
  "det_at_threshold = \<lparr> det_box = (0, 0, 0, 0), det_label = 2, det_score = 7549747 / 8388608 \<rparr>"

definition good_frame :: "nat \<Rightarrow> nat frame_script" where
  "good_frame k =
     \<lparr> fs_read = Read_frame k, fs_start_time = real k,
       fs_detect = Inr [det_above, det_at_threshold], fs_end_time = real k + 1 / 2 \<rparr>"

definition zero_elapsed_frame :: "nat \<Rightarrow> nat frame_script" where
  "zero_elapsed_frame k =
     \<lparr> fs_read = Read_frame k, fs_start_time = 5, fs_detect = Inr [], fs_end_time = 5 \<rparr>"

definition failing_read :: "nat frame_script" where
  "failing_read =
     \<lparr> fs_read = Read_raises (External ''read failure''), fs_start_time = 0,
       fs_detect = Inr [], fs_end_time = 1 \<rparr>"

definition sample_env :: "nat frame_script list \<Rightarrow> nat video_env" where
  "sample_env fss =
     \<lparr> mps_available = True, cap_is_opened = True,
       cap_frame_width = 640, cap_frame_height = 480, cap_fps = 30,
       cap_frame_count = int (length fss), writer_is_opened = True,
       id2label = [1 \<mapsto> ''person'', 2 \<mapsto> ''bicycle''],
       palette = [1 \<mapsto> [10, 20, 30]],
       frames = fss \<rparr>"

definition overlay_above :: overlay where
  "overlay_above =
     \<lparr> ov_detection = det_above, ov_name = ''person'', ov_color = [10, 20, 30],
       ov_font_scale = Fin 0.4, ov_thickness = 2, ov_text_thickness = 1 \<rparr>"

definition rendered_good :: "nat \<Rightarrow> nat rendered" where
  "rendered_good k = \<lparr> rf_frame = k, rf_overlays = [overlay_above], rf_fps = 2 \<rparr>"


text \<open>
  A frame whose only detection has the \<^verbatim>\<open>float32\<close> nearest to 0.8 as its score, a
  value greater than 0.8.
\<close>

definition det_float32_of_08 :: detection where
  "det_float32_of_08 =
     \<lparr> det_box = (10, 20, 10, 60), det_label = 1, det_score = 13421773 / 16777216 \<rparr>"

definition frame_float32_of_08 :: "nat frame_script" where
  "frame_float32_of_08 =
     \<lparr> fs_read = Read_frame 0, fs_start_time = 0,
       fs_detect = Inr [det_float32_of_08], fs_end_time = 1 / 2 \<rparr>"

section \<open>Properties\<close>

subsection \<open>Rounding to float32\<close>

lemma float32_round_half_to_one:
  assumes "1 / 2 \<le> x" and "x < 1"
  shows "float32_round x = of_int (round_half_even (x * 16777216)) / 16777216"
proof -
  have pos: "0 < x"
    using assms(1) by simp
  have "\<lfloor>log 2 x\<rfloor> = - 1"
    using pos assms by (subst floor_log_eq_powr_iff) (simp_all add: powr_minus)
  then have e: "max \<lfloor>log 2 \<bar>x\<bar>\<rfloor> (- 126) = - 1"
    using pos by simp
  have ulp: "2 powr (of_int (- 1) - 23) = (1 / 16777216 :: real)"
  proof -
    have "2 powr (of_int (- 1) - 23) = (2::real) powr (- 24)"
      by simp
    also have "\<dots> = inverse (2 powr 24)"
      by (rule powr_minus)
    also have "\<dots> = 1 / 16777216"
      by (simp add: inverse_eq_divide)
    finally show ?thesis .
  qed
  show ?thesis
    using pos unfolding float32_round_def Let_def e ulp by simp
qed

lemma float32_round_09: "float32_round 0.9 = 7549747 / 8388608"
proof -
  have "round_half_even (0.9 * 16777216) = 15099494"
    by (simp add: round_half_even_def Let_def)
  then show ?thesis
    by (simp add: float32_round_half_to_one)
qed

lemma float32_round_08: "float32_round 0.8 = 13421773 / 16777216"
proof -
  have "round_half_even (0.8 * 16777216) = 13421773"
    by (simp add: round_half_even_def Let_def)
  then show ?thesis
    by (simp add: float32_round_half_to_one)
qed

lemma float32_round_four_fifths: "float32_round (4 / 5) = 13421773 / 16777216"
  using float32_round_08 by simp

subsection \<open>Label sizing\<close>













subsection \<open>Colour palette\<close>

lemma set_py_range: "set (py_range n) = {0..<n}"
proof -
  have "set (py_range n) = int ` {0..<nat n}"
    by (simp add: py_range_def)
  also have "\<dots> = {0..<n}"
    by (simp add: image_int_atLeastLessThan)
  finally show ?thesis .
qed

lemma dom_palette_entries:
  "dom (fst (palette_entries R labels g m)) = dom m \<union> set labels"
proof (induction labels arbitrary: g m)
  case Nil
  then show ?case by simp
next
  case (Cons label labels)
  obtain xs g' where d: "rs_randint R 0 255 3 g = (xs, g')"
    by (cases "rs_randint R 0 255 3 g")
  have step: "palette_entries R (label # labels) g m
      = palette_entries R labels g' (m(label \<mapsto> xs))"
    by (simp add: d)
  have "dom (fst (palette_entries R labels g' (m(label \<mapsto> xs))))
      = dom (m(label \<mapsto> xs)) \<union> set labels"
    by (rule Cons.IH)
  then show ?case
    unfolding step by simp
qed

lemma dom_generate_color_palette:
  "dom (fst (generate_color_palette R num_classes g0)) = {0..<num_classes}"
  by (simp add: generate_color_palette_def dom_palette_entries set_py_range)

lemma palette_entries_channels:
  assumes "randint_contract R"
    and "\<And>l c. m l = Some c \<Longrightarrow> length c = 3 \<and> (\<forall>x \<in> set c. 0 \<le> x \<and> x < 255)"
    and "fst (palette_entries R labels g m) label = Some c"
  shows "length c = 3 \<and> (\<forall>x \<in> set c. 0 \<le> x \<and> x < 255)"
  using assms(2,3)
proof (induction labels arbitrary: g m)
  case Nil
  then show ?case by simp
next
  case (Cons l labels)
  obtain xs g' where d: "rs_randint R 0 255 3 g = (xs, g')"
    by (cases "rs_randint R 0 255 3 g")
  have xs: "length xs = 3 \<and> (\<forall>x \<in> set xs. 0 \<le> x \<and> x < 255)"
    using assms(1) d unfolding randint_contract_def
    by (metis fst_conv zero_less_numeral)
  have "fst (palette_entries R labels g' (m(l \<mapsto> xs))) label = Some c"
    using Cons.prems(2) by (simp add: d)
  moreover have "length c' = 3 \<and> (\<forall>x \<in> set c'. 0 \<le> x \<and> x < 255)"
    if "(m(l \<mapsto> xs)) l' = Some c'" for l' c'
    using that xs Cons.prems(1) by (cases "l' = l") auto
  ultimately show ?case
    using Cons.IH [of "m(l \<mapsto> xs)" g'] by blast
qed

lemma int_mod_in_range:
  assumes "low < high"
  shows "low + int (k mod nat (high - low)) < high"
proof -
  have "k mod nat (high - low) < nat (high - low)"
    using assms by simp
  then show ?thesis
    using assms by linarith
qed

lemma counter_random_contract: "randint_contract counter_random"
  unfolding randint_contract_def counter_random_def
  by (auto simp: int_mod_in_range)

text \<open>
  Claim C6. Palette generation is deterministic: the function installs the seed 42 before it
  draws, so the mapping (and the generator state left behind) is the same whatever the
  state of the global generator at the call; in particular a second call, made in the
  state the first one left, returns the same mapping, and so does the 91-class palette
  \<open>colors\<close>. The seed is the constant 42 of the source, not an argument.
\<close>

theorem generate_color_palette_deterministic:
  "generate_color_palette R num_classes g = generate_color_palette R num_classes g'
   \<and> fst (generate_color_palette R num_classes (snd (generate_color_palette R num_classes g)))
       = fst (generate_color_palette R num_classes g)
   \<and> colors R g = colors R g'"
  by (simp add: generate_color_palette_def colors_def)

theorem generate_color_palette_deterministic_witness:
  "generate_color_palette counter_random 2 0 = generate_color_palette counter_random 2 7
   \<and> colors counter_random 0 = colors counter_random 7"
  using generate_color_palette_deterministic [of counter_random 2 0 7] by simp

text \<open>
  Claim C8. Every colour of the palette is a triple of channel values drawn by
  \<^verbatim>\<open>np.random.randint(0, 255, 3)\<close>. The upper bound of \<^verbatim>\<open>randint\<close> is exclusive:
  under its contract every channel lies in \<open>[0, 254]\<close>, and 255 is never a channel
  value of a generated colour (the claim takes every value of \<open>[0, 255]\<close> to be possible).
\<close>

theorem palette_channels_exclude_255:
  assumes "randint_contract R"
    and "fst (generate_color_palette R num_classes g0) label = Some c"
  shows "length c = 3 \<and> (\<forall>x \<in> set c. 0 \<le> x \<and> x \<le> 254) \<and> 255 \<notin> set c"
proof -
  have "length c = 3 \<and> (\<forall>x \<in> set c. 0 \<le> x \<and> x < 255)"
    using assms(1) _ assms(2) [unfolded generate_color_palette_def]
    by (rule palette_entries_channels) simp
  then show ?thesis
    by auto
qed

theorem palette_channels_exclude_255_witness:
  "randint_contract counter_random
   \<and> fst (generate_color_palette counter_random 2 0) 1 = Some [30, 127, 224]
   \<and> length [30, 127, 224 :: int] = 3 \<and> 255 \<notin> set [30, 127, 224 :: int]"
proof -
  have p: "fst (generate_color_palette counter_random 2 0) 1 = Some [30, 127, 224]"
    by (simp add: generate_color_palette_def py_range_def counter_random_def upt_rec)
  show ?thesis
    using counter_random_contract p
      palette_channels_exclude_255 [OF counter_random_contract p]
    by simp
qed

text \<open>
  Claim C9. The keys of a generated palette are the class ids \<open>0, \<dots>, num_classes - 1\<close>.
  For a class id that is not a key the lookup returns the default colour pure green
  \<open>(0, 255, 0)\<close> and does not fail; for a key it returns the mapped colour; the lookup of
  999 in the 91-class palette returns the default.
\<close>

theorem get_label_color_default:
  "(label \<in> dom (fst (generate_color_palette R num_classes g0))
      \<longleftrightarrow> 0 \<le> label \<and> label < num_classes)
   \<and> (label \<notin> dom cs \<longrightarrow> get_label_color cs label = [0, 255, 0])
   \<and> (\<forall>c. cs label = Some c \<longrightarrow> get_label_color cs label = c)
   \<and> get_label_color (colors R g0) 999 = [0, 255, 0]"
proof -
  have "(999::int) \<notin> dom (colors R g0)"
    unfolding colors_def dom_generate_color_palette by simp
  then have "colors R g0 999 = None"
    by (simp add: domIff)
  then show ?thesis
    by (auto simp: get_label_color_def dom_generate_color_palette domIff)
qed

theorem get_label_color_default_witness:
  "get_label_color (colors counter_random 0) 999 = [0, 255, 0]
   \<and> 5 \<in> dom (fst (generate_color_palette counter_random 91 0))
   \<and> get_label_color Map.empty 5 = [0, 255, 0]
   \<and> get_label_color [5 \<mapsto> [1, 2, 3]] 5 = [1, 2, 3]"
  using get_label_color_default [of 5 counter_random 91 0 "[5 \<mapsto> [1, 2, 3]]"]
    get_label_color_default [of 5 counter_random 91 0 Map.empty]
  by simp

subsection \<open>The frame loop and process_video\<close>

lemma draw_detection_ov_detection:
  assumes "draw_detection i2l cs w h d = Inr ov"
  shows "ov_detection ov = d"
  using assms unfolding draw_detection_def
  by (auto simp: Let_def split: prod.splits option.splits sum.splits)

lemma draw_detections_map:
  assumes "draw_detections i2l cs w h ds = Inr ovs"
  shows "map ov_detection ovs = ds"
  using assms
proof (induction ds arbitrary: ovs)
  case Nil
  then show ?case by simp
next
  case (Cons d ds)
  from Cons.prems obtain ov ovs' where
    ov: "draw_detection i2l cs w h d = Inr ov" and
    ovs': "draw_detections i2l cs w h ds = Inr ovs'" and
    eq: "ovs = ov # ovs'"
    by (auto split: sum.splits)
  show ?case
    using draw_detection_ov_detection [OF ov] Cons.IH [OF ovs'] eq by simp
qed

lemma process_frame_Inr:
  assumes "process_frame env thr st frame fs = Inr st'"
  shows "\<exists>results ovs.
      fs_detect fs = Inr results
    \<and> draw_detections (id2label env) (palette env) (cap_frame_width env) (cap_frame_height env)
        (filter (\<lambda>d. float32_round thr < det_score d) results) = Inr ovs
    \<and> fs_end_time fs - fs_start_time fs \<noteq> 0
    \<and> frame_count st' = frame_count st + 1
    \<and> total_fps st' = total_fps st + 1 / (fs_end_time fs - fs_start_time fs)
    \<and> pbar_n st' = pbar_n st + 1
    \<and> events st' = events st
        @ [Out_write \<lparr> rf_frame = frame, rf_overlays = ovs,
                       rf_fps = 1 / (fs_end_time fs - fs_start_time fs) \<rparr>, Pbar_update]
        @ (if (pbar_n st + 1) mod 100 = 0 then [Empty_cache, Gc_collect] else [])"
  using assms unfolding process_frame_def
  by (auto simp: Let_def split: sum.splits if_splits)


lemma run_loop_written:
  assumes "Out_write rf \<in> set (events (snd (run_loop env thr st fss)))"
  shows "Out_write rf \<in> set (events st)
       \<or> (\<exists>fs \<in> set fss. \<exists>results.
             fs_read fs = Read_frame (rf_frame rf) \<and> fs_detect fs = Inr results
           \<and> map ov_detection (rf_overlays rf) = filter (\<lambda>d. float32_round thr < det_score d) results
           \<and> fs_end_time fs - fs_start_time fs \<noteq> 0
           \<and> rf_fps rf = 1 / (fs_end_time fs - fs_start_time fs))"
  using assms
proof (induction fss arbitrary: st)
  case Nil
  then show ?case by simp
next
  case (Cons fs rest)
  define st1 where "st1 = st\<lparr> events := events st @ [Cap_read] \<rparr>"
  show ?case
  proof (cases "fs_read fs")
    case (Read_frame frame)
    show ?thesis
    proof (cases "process_frame env thr st1 frame fs")
      case (Inl e)
      then show ?thesis
        using Cons.prems Read_frame by (simp add: st1_def)
    next
      case (Inr st2)
      from process_frame_Inr [OF Inr] obtain results ovs where
        det: "fs_detect fs = Inr results" and
        draw: "draw_detections (id2label env) (palette env) (cap_frame_width env)
            (cap_frame_height env) (filter (\<lambda>d. float32_round thr < det_score d) results) = Inr ovs" and
        nz: "fs_end_time fs - fs_start_time fs \<noteq> 0" and
        ev: "events st2 = events st1
          @ [Out_write \<lparr> rf_frame = frame, rf_overlays = ovs,
               rf_fps = 1 / (fs_end_time fs - fs_start_time fs) \<rparr>, Pbar_update]
          @ (if (pbar_n st1 + 1) mod 100 = 0 then [Empty_cache, Gc_collect] else [])"
        by blast
      have "Out_write rf \<in> set (events (snd (run_loop env thr st2 rest)))"
        using Cons.prems Read_frame Inr by (simp add: st1_def)
      from Cons.IH [OF this] consider
        (old) "Out_write rf \<in> set (events st2)" |
        (later) "\<exists>fs \<in> set rest. \<exists>results.
             fs_read fs = Read_frame (rf_frame rf) \<and> fs_detect fs = Inr results
           \<and> map ov_detection (rf_overlays rf) = filter (\<lambda>d. float32_round thr < det_score d) results
           \<and> fs_end_time fs - fs_start_time fs \<noteq> 0
           \<and> rf_fps rf = 1 / (fs_end_time fs - fs_start_time fs)"
        by blast
      then show ?thesis
      proof cases
        case old
        then consider
          (before) "Out_write rf \<in> set (events st)" |
          (this_frame) "rf = \<lparr> rf_frame = frame, rf_overlays = ovs,
               rf_fps = 1 / (fs_end_time fs - fs_start_time fs) \<rparr>"
          unfolding ev by (auto simp: st1_def split: if_splits)
        then show ?thesis
        proof cases
          case before
          then show ?thesis by simp
        next
          case this_frame
          have "map ov_detection (rf_overlays rf) = filter (\<lambda>d. float32_round thr < det_score d) results"
            using draw_detections_map [OF draw] this_frame by simp
          then show ?thesis
            using Read_frame det nz this_frame by auto
        qed
      next
        case later
        then show ?thesis by auto
      qed
    qed
  next
    case Read_end
    then show ?thesis
      using Cons.prems by simp
  next
    case (Read_raises e)
    then show ?thesis
      using Cons.prems by simp
  qed
qed

lemma run_loop_events_shape:
  "\<exists>evs. events (snd (run_loop env thr st fss)) = events st @ evs
     \<and> (\<forall>ev \<in> set evs. ev = Cap_read \<or> ev = Pbar_update \<or> ev = Empty_cache
            \<or> ev = Gc_collect \<or> (\<exists>rf. ev = Out_write rf))
     \<and> Cap_read \<in> set evs"
proof (induction fss arbitrary: st)
  case Nil
  show ?case by simp
next
  case (Cons fs rest)
  define st1 where "st1 = st\<lparr> events := events st @ [Cap_read] \<rparr>"
  show ?case
  proof (cases "fs_read fs")
    case (Read_frame frame)
    show ?thesis
    proof (cases "process_frame env thr st1 frame fs")
      case (Inl e)
      then show ?thesis
        using Read_frame by (simp add: st1_def)
    next
      case (Inr st2)
      from process_frame_Inr [OF Inr] obtain step where
        ev: "events st2 = events st1 @ step" and
        step: "\<forall>ev \<in> set step. ev = Cap_read \<or> ev = Pbar_update \<or> ev = Empty_cache
            \<or> ev = Gc_collect \<or> (\<exists>rf. ev = Out_write rf)"
        by (auto split: if_splits)
      from Cons.IH [of st2] obtain evs where
        evs: "events (snd (run_loop env thr st2 rest)) = events st2 @ evs" and
        shape: "\<forall>ev \<in> set evs. ev = Cap_read \<or> ev = Pbar_update \<or> ev = Empty_cache
            \<or> ev = Gc_collect \<or> (\<exists>rf. ev = Out_write rf)"
        by blast
      have "events (snd (run_loop env thr st (fs # rest))) = events st @ (Cap_read # step @ evs)"
        using Read_frame Inr evs ev by (simp add: st1_def)
      moreover have "\<forall>ev \<in> set (Cap_read # step @ evs). ev = Cap_read \<or> ev = Pbar_update
          \<or> ev = Empty_cache \<or> ev = Gc_collect \<or> (\<exists>rf. ev = Out_write rf)"
        using step shape by auto
      ultimately show ?thesis
        by (metis list.set_intros(1))
    qed
  next
    case Read_end
    then show ?thesis by simp
  next
    case (Read_raises e)
    then show ?thesis by simp
  qed
qed

lemma no_write_in_initial_state:
  "Out_write rf \<notin> set (events (initial_state env video_path output_path))"
  by (simp add: initial_state_def open_events_def Let_def)

lemma no_write_in_finalize: "Out_write rf \<notin> set finalize_events"
  by (simp add: finalize_events_def)

text \<open>
  Claim C1, as the code has it. Every frame that \<^verbatim>\<open>process_video\<close> hands to the
  writer was read from the source, and the detections drawn on it are exactly those of the
  detector output for that frame whose score is strictly greater than the threshold
  rounded to \<^verbatim>\<open>float32\<close>, in the detector's order: a detection of the output is
  rendered if and only if \<open>float32_round threshold < score\<close>, so one whose score equals
  the rounded threshold is not. (The claim compares with the threshold itself.)
\<close>

theorem rendered_iff_above_rounded_threshold:
  assumes "Out_write rf \<in> set (pv_events (process_video env video_path output_path threshold))"
  shows "\<exists>fs \<in> set (frames env). \<exists>results.
           fs_read fs = Read_frame (rf_frame rf) \<and> fs_detect fs = Inr results
         \<and> map ov_detection (rf_overlays rf) = filter (\<lambda>d. float32_round threshold < det_score d) results
         \<and> (\<forall>d \<in> set results.
               d \<in> ov_detection ` set (rf_overlays rf) \<longleftrightarrow> float32_round threshold < det_score d)
         \<and> ov_detection ` set (rf_overlays rf) \<subseteq> set results"
proof -
  define st0 where "st0 = initial_state env video_path output_path"
  have opened: "cap_is_opened env"
    using assms by (cases "cap_is_opened env") (simp_all add: process_video_def open_events_def Let_def)
  have "Out_write rf \<in> set (events (snd (run_loop env threshold st0 (frames env))))"
    using assms opened no_write_in_finalize [of rf]
    by (auto simp: process_video_def st0_def split: prod.splits option.splits)
  from run_loop_written [OF this] obtain fs results where
    fs: "fs \<in> set (frames env)" "fs_read fs = Read_frame (rf_frame rf)"
      "fs_detect fs = Inr results" and
    m: "map ov_detection (rf_overlays rf) = filter (\<lambda>d. float32_round threshold < det_score d) results"
    using no_write_in_initial_state [of rf env video_path output_path]
    unfolding st0_def by blast
  have "ov_detection ` set (rf_overlays rf) = set (filter (\<lambda>d. float32_round threshold < det_score d) results)"
    using m by (metis set_map)
  then have "(\<forall>d \<in> set results.
               d \<in> ov_detection ` set (rf_overlays rf) \<longleftrightarrow> float32_round threshold < det_score d)
         \<and> ov_detection ` set (rf_overlays rf) \<subseteq> set results"
    by auto
  then show ?thesis
    using fs m by blast
qed

lemma draw_above:
  "draw_detection [1 \<mapsto> ''person'', 2 \<mapsto> ''bicycle''] [1 \<mapsto> [10, 20, 30]] 640 480 det_above
     = Inr overlay_above"
  by (simp add: draw_detection_def det_above_def overlay_above_def calculate_label_size_def
      font_scale_unclipped_def box_size_ratio_def get_label_color_def)

lemma process_good_frame:
  "process_frame (sample_env fss) 0.9 st k (good_frame k)
     = Inr (st\<lparr> total_fps := total_fps st + 2, frame_count := frame_count st + 1,
              pbar_n := pbar_n st + 1,
              events := events st @ [Out_write (rendered_good k), Pbar_update]
                @ (if (pbar_n st + 1) mod 100 = 0 then [Empty_cache, Gc_collect] else []) \<rparr>)"
  using draw_above
  by (simp add: process_frame_def sample_env_def good_frame_def det_above_def
      det_at_threshold_def rendered_good_def Let_def float32_round_09)

lemma process_zero_elapsed_frame:
  "process_frame (sample_env fss) 0.9 st k (zero_elapsed_frame k) = Inl ZeroDivisionError"
  by (simp add: process_frame_def sample_env_def zero_elapsed_frame_def)

lemma sample_env_fields:
  "cap_is_opened (sample_env fss)" "frames (sample_env fss) = fss"
  "mps_available (sample_env fss)" "writer_is_opened (sample_env fss)"
  "cap_frame_count (sample_env fss) = int (length fss)"
  by (simp_all add: sample_env_def)

lemma read_good_frame: "fs_read (good_frame k) = Read_frame k"
  by (simp add: good_frame_def)

lemma read_zero_elapsed_frame: "fs_read (zero_elapsed_frame k) = Read_frame k"
  by (simp add: zero_elapsed_frame_def)

lemma read_failing_read: "fs_read failing_read = Read_raises (External ''read failure'')"
  by (simp add: failing_read_def)

lemmas sample_run_simps =
  process_video_def initial_state_def Let_def process_good_frame process_zero_elapsed_frame
  sample_env_fields read_good_frame read_zero_elapsed_frame read_failing_read

text \<open>
  A frame with one detection of score 15/16 and one whose score is the \<^verbatim>\<open>float32\<close>
  nearest to 0.9, at threshold 0.9: only the first is rendered.
\<close>

theorem rendered_iff_above_rounded_threshold_witness:
  "Out_write (rendered_good 0)
     \<in> set (pv_events (process_video (sample_env [good_frame 0]) ''in.mp4'' ''out.mp4'' 0.9))
   \<and> (\<exists>fs \<in> set (frames (sample_env [good_frame 0])). \<exists>results.
         fs_read fs = Read_frame (rf_frame (rendered_good 0)) \<and> fs_detect fs = Inr results
       \<and> map ov_detection (rf_overlays (rendered_good 0))
           = filter (\<lambda>d. float32_round 0.9 < det_score d) results
       \<and> (\<forall>d \<in> set results.
             d \<in> ov_detection ` set (rf_overlays (rendered_good 0)) \<longleftrightarrow> float32_round 0.9 < det_score d)
       \<and> ov_detection ` set (rf_overlays (rendered_good 0)) \<subseteq> set results)
   \<and> det_at_threshold \<notin> ov_detection ` set (rf_overlays (rendered_good 0))
   \<and> det_above \<in> ov_detection ` set (rf_overlays (rendered_good 0))"
proof -
  have w: "Out_write (rendered_good 0)
     \<in> set (pv_events (process_video (sample_env [good_frame 0]) ''in.mp4'' ''out.mp4'' 0.9))"
    by (simp add: sample_run_simps)
  have "det_at_threshold \<notin> ov_detection ` set (rf_overlays (rendered_good 0))"
    by (simp add: rendered_good_def overlay_above_def det_above_def det_at_threshold_def)
  moreover have "det_above \<in> ov_detection ` set (rf_overlays (rendered_good 0))"
    by (simp add: rendered_good_def overlay_above_def)
  ultimately show ?thesis
    using w rendered_iff_above_rounded_threshold [OF w] by blast
qed

text \<open>
  A run against claim C1: at threshold 0.8 the detector returns a detection whose score
  is the \<^verbatim>\<open>float32\<close> nearest to 0.8, which is greater than 0.8. The frame is written
  with no detection drawn on it.
\<close>

theorem score_above_threshold_not_rendered:
  "0.8 < det_score det_float32_of_08
   \<and> fs_detect frame_float32_of_08 = Inr [det_float32_of_08]
   \<and> pv_result (process_video (sample_env [frame_float32_of_08]) ''in.mp4'' ''out.mp4'' 0.8)
       = Inr ()
   \<and> written_frames
        (pv_events (process_video (sample_env [frame_float32_of_08]) ''in.mp4'' ''out.mp4'' 0.8))
       = [\<lparr> rf_frame = 0, rf_overlays = [], rf_fps = 2 \<rparr>]"
proof -
  have "process_frame (sample_env [frame_float32_of_08]) 0.8 st 0 frame_float32_of_08
      = Inr (st\<lparr> total_fps := total_fps st + 2, frame_count := frame_count st + 1,
               pbar_n := pbar_n st + 1,
               events := events st
                 @ [Out_write \<lparr> rf_frame = 0, rf_overlays = [], rf_fps = 2 \<rparr>, Pbar_update]
                 @ (if (pbar_n st + 1) mod 100 = 0 then [Empty_cache, Gc_collect] else []) \<rparr>)"
    for st :: "nat loop_state"
    by (simp add: process_frame_def sample_env_def frame_float32_of_08_def det_float32_of_08_def
        Let_def float32_round_08 float32_round_four_fifths)
  moreover have "fs_read frame_float32_of_08 = Read_frame 0"
    by (simp add: frame_float32_of_08_def)
  moreover have "written_frames [] = ([] :: nat rendered list)"
    "written_frames (Cap_read # evs) = written_frames evs"
    "written_frames (Pbar_update # evs) = written_frames evs"
    "written_frames (Video_writer p a b c # evs) = written_frames evs"
    "written_frames (Pbar_create n # evs) = written_frames evs"
    "written_frames (Out_write rf # evs) = rf # written_frames evs"
    "written_frames (xs @ evs) = written_frames xs @ written_frames evs"
    "written_frames (open_events env v) = []"
    "written_frames (finalize_events :: nat event list) = []"
    "written_frames (Print s # evs) = written_frames evs"
    for evs xs :: "nat event list" and p a b c n rf s and env :: "nat video_env" and v
    by (simp_all add: written_frames_def open_events_def finalize_events_def Let_def)
  ultimately show ?thesis
    by (simp add: process_video_def initial_state_def Let_def sample_env_fields
        det_float32_of_08_def frame_float32_of_08_def)
qed



lemma written_frames_append:
  "written_frames (xs @ ys) = written_frames xs @ written_frames ys"
  by (simp add: written_frames_def)

lemma written_frames_simps:
  "written_frames [] = []"
  "written_frames (Out_write rf # evs) = rf # written_frames evs"
  "written_frames (Print s # evs) = written_frames evs"
  "written_frames (Print_error e # evs) = written_frames evs"
  "written_frames (Model_to dv # evs) = written_frames evs"
  "written_frames (Video_capture p # evs) = written_frames evs"
  "written_frames (Video_writer p a b c # evs) = written_frames evs"
  "written_frames (Pbar_create n # evs) = written_frames evs"
  "written_frames (Cap_read # evs) = written_frames evs"
  "written_frames (Pbar_update # evs) = written_frames evs"
  "written_frames (Pbar_close # evs) = written_frames evs"
  "written_frames (Cap_release # evs) = written_frames evs"
  "written_frames (Out_release # evs) = written_frames evs"
  "written_frames (Destroy_all_windows # evs) = written_frames evs"
  "written_frames (Empty_cache # evs) = written_frames evs"
  "written_frames (Gc_collect # evs) = written_frames evs"
  by (simp_all add: written_frames_def)

lemma written_frames_finalize: "written_frames finalize_events = []"
  by (simp add: finalize_events_def written_frames_simps)

lemma written_frames_open: "written_frames (open_events env video_path) = []"
  by (simp add: open_events_def Let_def written_frames_simps)









lemma process_frame_writer_irrelevant:
  "process_frame (env\<lparr> writer_is_opened := b \<rparr>) thr st frame fs = process_frame env thr st frame fs"
  by (simp add: process_frame_def Let_def split: sum.splits)

lemma run_loop_writer_irrelevant:
  "run_loop (env\<lparr> writer_is_opened := b \<rparr>) thr st fss = run_loop env thr st fss"
  by (induction fss arbitrary: st)
    (simp_all add: process_frame_writer_irrelevant Let_def split: read_outcome.splits sum.splits)

lemma process_video_writer_irrelevant:
  "process_video (env\<lparr> writer_is_opened := b \<rparr>) video_path output_path thr
     = process_video env video_path output_path thr"
  by (simp add: process_video_def run_loop_writer_irrelevant initial_state_def open_events_def)

lemma cap_read_in_process_video:
  assumes "cap_is_opened env"
  shows "Cap_read \<in> set (pv_events (process_video env video_path output_path thr))"
proof -
  obtain evs where
    "events (snd (run_loop env thr (initial_state env video_path output_path) (frames env)))
       = events (initial_state env video_path output_path) @ evs"
    "Cap_read \<in> set evs"
    using run_loop_events_shape [of env thr "initial_state env video_path output_path" "frames env"]
    by blast
  then show ?thesis
    using assms by (auto simp: process_video_def split: prod.splits option.splits)
qed

text \<open>
  Claim C4, as the code has it. \<^verbatim>\<open>process_video\<close> raises
  \<^verbatim>\<open>ValueError("Error opening video file")\<close> when the source cannot be opened, before
  the writer is created and before any frame is read or written. When the source opens,
  the loop starts (a read is attempted). A source that opens with no frames is not an
  error: the call returns normally with nothing written. Whether the writer opened is
  never inspected: the run is the same either way. (The claim says that a source with
  zero frames and a sink that cannot be created fail before the loop.)
\<close>

theorem open_failure_only_for_unopened_source:
  "(\<not> cap_is_opened env \<longrightarrow>
       pv_result (process_video env video_path output_path thr)
         = Inl (ValueError ''Error opening video file'')
     \<and> pv_events (process_video env video_path output_path thr) = open_events env video_path
     \<and> Cap_read \<notin> set (pv_events (process_video env video_path output_path thr))
     \<and> written_frames (pv_events (process_video env video_path output_path thr)) = [])
   \<and> (cap_is_opened env \<longrightarrow>
       Cap_read \<in> set (pv_events (process_video env video_path output_path thr)))
   \<and> (cap_is_opened env \<and> frames env = [] \<longrightarrow>
       pv_result (process_video env video_path output_path thr) = Inr ()
     \<and> written_frames (pv_events (process_video env video_path output_path thr)) = [])
   \<and> process_video (env\<lparr> writer_is_opened := b \<rparr>) video_path output_path thr
       = process_video env video_path output_path thr"
proof -
  have closed: "pv_result (process_video env video_path output_path thr)
         = Inl (ValueError ''Error opening video file'')
     \<and> pv_events (process_video env video_path output_path thr) = open_events env video_path
     \<and> Cap_read \<notin> set (pv_events (process_video env video_path output_path thr))
     \<and> written_frames (pv_events (process_video env video_path output_path thr)) = []"
    if "\<not> cap_is_opened env"
    using that by (simp add: process_video_def written_frames_open) (simp add: open_events_def Let_def)
  have empty: "pv_result (process_video env video_path output_path thr) = Inr ()
     \<and> written_frames (pv_events (process_video env video_path output_path thr)) = []"
    if "cap_is_opened env" "frames env = []"
    using that
    by (simp add: process_video_def initial_state_def written_frames_append written_frames_simps
        written_frames_open written_frames_finalize)
  show ?thesis
    using closed empty cap_read_in_process_video [of env video_path output_path thr]
      process_video_writer_irrelevant [where env = env and b = b]
    by blast
qed

theorem open_failure_only_for_unopened_source_witness:
  "pv_result (process_video ((sample_env [good_frame 0])\<lparr> cap_is_opened := False \<rparr>)
       ''missing.mp4'' ''out.mp4'' 0.9) = Inl (ValueError ''Error opening video file'')
   \<and> Cap_read \<notin> set (pv_events (process_video
       ((sample_env [good_frame 0])\<lparr> cap_is_opened := False \<rparr>) ''missing.mp4'' ''out.mp4'' 0.9))
   \<and> Cap_read \<in> set (pv_events (process_video (sample_env []) ''in.mp4'' ''out.mp4'' 0.9))
   \<and> pv_result (process_video (sample_env []) ''in.mp4'' ''out.mp4'' 0.9) = Inr ()"
proof -
  have a: "\<not> cap_is_opened ((sample_env [good_frame 0])\<lparr> cap_is_opened := False \<rparr>)"
    by simp
  have b: "cap_is_opened (sample_env [])" "frames (sample_env []) = []"
    by (simp_all add: sample_env_fields)
  show ?thesis
    using a b
      open_failure_only_for_unopened_source
        [of "(sample_env [good_frame 0])\<lparr> cap_is_opened := False \<rparr>" "''missing.mp4''"
          "''out.mp4''" "0.9"]
      open_failure_only_for_unopened_source [of "sample_env []" "''in.mp4''" "''out.mp4''" "0.9"]
    by blast
qed

text \<open>
  Runs against claim C4: an opened source with zero frames, and a writer that did not
  open; both calls return normally, the second after handing its frame to the writer.
\<close>

theorem zero_frames_or_unopened_sink_do_not_fail:
  "cap_is_opened (sample_env [])
   \<and> frames (sample_env []) = []
   \<and> cap_frame_count (sample_env []) = 0
   \<and> pv_result (process_video (sample_env []) ''in.mp4'' ''out.mp4'' 0.9) = Inr ()
   \<and> \<not> writer_is_opened ((sample_env [good_frame 0])\<lparr> writer_is_opened := False \<rparr>)
   \<and> pv_result (process_video ((sample_env [good_frame 0])\<lparr> writer_is_opened := False \<rparr>)
        ''in.mp4'' ''out.mp4'' 0.9) = Inr ()
   \<and> written_frames (pv_events (process_video
        ((sample_env [good_frame 0])\<lparr> writer_is_opened := False \<rparr>) ''in.mp4'' ''out.mp4'' 0.9))
       = [rendered_good 0]"
proof -
  have "pv_result (process_video (sample_env [good_frame 0]) ''in.mp4'' ''out.mp4'' 0.9) = Inr ()
      \<and> written_frames (pv_events (process_video (sample_env [good_frame 0])
            ''in.mp4'' ''out.mp4'' 0.9)) = [rendered_good 0]"
    by (simp add: sample_run_simps written_frames_append written_frames_simps
        written_frames_finalize written_frames_open)
  moreover have "pv_result (process_video (sample_env []) ''in.mp4'' ''out.mp4'' 0.9) = Inr ()"
    by (simp add: sample_run_simps)
  ultimately show ?thesis
    unfolding process_video_writer_irrelevant by (simp add: sample_env_fields)
qed

lemma printed_append: "printed (xs @ ys) = printed xs @ printed ys"
  by (simp add: printed_def)

lemma printed_loop_events:
  assumes "\<forall>ev \<in> set evs. ev = Cap_read \<or> ev = Pbar_update \<or> ev = Empty_cache
            \<or> ev = Gc_collect \<or> (\<exists>rf. ev = Out_write rf)"
  shows "printed evs = []"
  using assms unfolding printed_def by (induction evs) auto

lemma printed_finalize: "printed finalize_events = []"
  by (simp add: printed_def finalize_events_def)

lemma printed_initial_state:
  "printed (events (initial_state env video_path output_path))
     = [Print (''Using device: '' @ device_name (if mps_available env then Mps else Cpu))]"
  by (simp add: printed_def initial_state_def open_events_def Let_def)

lemma run_loop_statistics:
  assumes "frame_count st = length (written_frames (events st))"
    and "total_fps st = sum_list (map rf_fps (written_frames (events st)))"
  shows "frame_count (snd (run_loop env thr st fss))
           = length (written_frames (events (snd (run_loop env thr st fss))))
       \<and> total_fps (snd (run_loop env thr st fss))
           = sum_list (map rf_fps (written_frames (events (snd (run_loop env thr st fss)))))"
  using assms
proof (induction fss arbitrary: st)
  case Nil
  then show ?case
    by (simp add: written_frames_append written_frames_simps)
next
  case (Cons fs rest)
  define st1 where "st1 = st\<lparr> events := events st @ [Cap_read] \<rparr>"
  have st1: "frame_count st1 = length (written_frames (events st1))"
      "total_fps st1 = sum_list (map rf_fps (written_frames (events st1)))"
    using Cons.prems by (simp_all add: st1_def written_frames_append written_frames_simps)
  show ?case
  proof (cases "fs_read fs")
    case (Read_frame frame)
    show ?thesis
    proof (cases "process_frame env thr st1 frame fs")
      case (Inl e)
      then show ?thesis
        using Read_frame st1 by (simp add: st1_def)
    next
      case (Inr st2)
      from process_frame_Inr [OF Inr] have
        "frame_count st2 = length (written_frames (events st2))"
        "total_fps st2 = sum_list (map rf_fps (written_frames (events st2)))"
        using st1 by (auto simp: written_frames_append written_frames_simps)
      from Cons.IH [OF this] show ?thesis
        using Read_frame Inr by (simp add: st1_def)
    qed
  next
    case Read_end
    then show ?thesis
      using st1 by (simp add: st1_def)
  next
    case (Read_raises e)
    then show ?thesis
      using st1 by (simp add: st1_def)
  qed
qed

text \<open>
  Claim C7. The claim says that a successful run reports the frame count and the mean FPS.
  The code keeps both accumulators (\<open>frame_count\<close> is the number of frames written and
  \<open>total_fps\<close> the sum of their FPS values) but never reads them: a successful run
  prints the device line and the completion message, and nothing else.
\<close>

theorem summary_statistics_not_printed:
  assumes "cap_is_opened env"
    and "fst (run_loop env thr (initial_state env video_path output_path) (frames env)) = None"
  shows "pv_result (process_video env video_path output_path thr) = Inr ()
       \<and> printed (pv_events (process_video env video_path output_path thr))
           = [Print (''Using device: '' @ device_name (if mps_available env then Mps else Cpu)),
              Print completed_message]
       \<and> frame_count (snd (run_loop env thr (initial_state env video_path output_path) (frames env)))
           = length (written_frames (pv_events (process_video env video_path output_path thr)))
       \<and> total_fps (snd (run_loop env thr (initial_state env video_path output_path) (frames env)))
           = sum_list (map rf_fps
               (written_frames (pv_events (process_video env video_path output_path thr))))"
proof -
  define st0 where "st0 = initial_state env video_path output_path"
  obtain st where loop: "run_loop env thr st0 (frames env) = (None, st)"
    using assms(2) unfolding st0_def
    by (cases "run_loop env thr (initial_state env video_path output_path) (frames env)") simp
  have pv: "process_video env video_path output_path thr
      = \<lparr> pv_result = Inr (),
          pv_events = events st @ finalize_events @ [Print completed_message] \<rparr>"
    using assms(1) loop by (simp add: process_video_def st0_def)
  obtain evs where
    evs: "events st = events st0 @ evs" and
    shape: "\<forall>ev \<in> set evs. ev = Cap_read \<or> ev = Pbar_update \<or> ev = Empty_cache
            \<or> ev = Gc_collect \<or> (\<exists>rf. ev = Out_write rf)"
    using run_loop_events_shape [of env thr st0 "frames env"] loop by auto
  have p: "printed (events st @ finalize_events @ [Print completed_message])
      = [Print (''Using device: '' @ device_name (if mps_available env then Mps else Cpu)),
         Print completed_message]"
    unfolding evs st0_def
    by (simp add: printed_append printed_loop_events [OF shape] printed_finalize
        printed_initial_state) (simp add: printed_def)
  have "frame_count st0 = length (written_frames (events st0))"
    "total_fps st0 = sum_list (map rf_fps (written_frames (events st0)))"
    by (simp_all add: st0_def initial_state_def written_frames_append written_frames_simps
        written_frames_open)
  from run_loop_statistics [OF this, of env thr "frames env"]
  have s: "frame_count st = length (written_frames (events st))"
    "total_fps st = sum_list (map rf_fps (written_frames (events st)))"
    using loop by simp_all
  have w: "written_frames (events st @ finalize_events @ [Print completed_message])
      = written_frames (events st)"
    by (simp add: written_frames_append written_frames_simps written_frames_finalize)
  show ?thesis
    using p s w loop unfolding pv st0_def by simp
qed

theorem summary_statistics_not_printed_witness:
  "cap_is_opened (sample_env [good_frame 0, good_frame 1])
   \<and> pv_result (process_video (sample_env [good_frame 0, good_frame 1]) ''in.mp4'' ''out.mp4'' 0.9)
       = Inr ()
   \<and> printed (pv_events
        (process_video (sample_env [good_frame 0, good_frame 1]) ''in.mp4'' ''out.mp4'' 0.9))
       = [Print ''Using device: mps'', Print completed_message]
   \<and> frame_count (snd (run_loop (sample_env [good_frame 0, good_frame 1]) 0.9
        (initial_state (sample_env [good_frame 0, good_frame 1]) ''in.mp4'' ''out.mp4'')
        [good_frame 0, good_frame 1])) = 2
   \<and> total_fps (snd (run_loop (sample_env [good_frame 0, good_frame 1]) 0.9
        (initial_state (sample_env [good_frame 0, good_frame 1]) ''in.mp4'' ''out.mp4'')
        [good_frame 0, good_frame 1])) = 4"
proof -
  let ?env = "sample_env [good_frame 0, good_frame 1]"
  have opened: "cap_is_opened ?env"
    by (rule sample_env_fields)
  have loop: "fst (run_loop ?env 0.9 (initial_state ?env ''in.mp4'' ''out.mp4'') (frames ?env))
      = None"
    by (simp add: sample_run_simps)
  have stats: "frame_count (snd (run_loop ?env 0.9
        (initial_state ?env ''in.mp4'' ''out.mp4'') [good_frame 0, good_frame 1])) = 2"
    "total_fps (snd (run_loop ?env 0.9
        (initial_state ?env ''in.mp4'' ''out.mp4'') [good_frame 0, good_frame 1])) = 4"
    by (simp_all add: sample_run_simps)
  show ?thesis
    using opened stats summary_statistics_not_printed [OF opened loop]
    by (simp add: sample_env_fields)
qed

end
